theory Spec2Isabelle
  imports Main "HOL-Library.Sublist"
begin

section \<open>Parsed JSON values and the Python operations the script applies to them\<close>

text \<open>
  The script \<^verbatim>\<open>abstract.shorter.py\<close> works on what \<^verbatim>\<open>json.load\<close> returns: \<^verbatim>\<open>None\<close>,
  \<^verbatim>\<open>bool\<close>, \<^verbatim>\<open>int\<close>, \<^verbatim>\<open>float\<close>, \<^verbatim>\<open>str\<close>, \<^verbatim>\<open>list\<close> and \<^verbatim>\<open>dict\<close> with string keys.
  A float is carried by its \<^verbatim>\<open>repr\<close>, which identifies it; the script never computes with
  numbers. A dict is an association list (the parser keeps one value per key); a parsed
  document is a tree, so no two entries share a dict and in-place mutation is modelled by
  returning the changed value. A string is a list of characters. HOL's \<open>char\<close> has 256
  values where a \<^verbatim>\<open>str\<close> holds any code point, a lone surrogate included; no operation
  of the script looks at a character other than \<^verbatim>\<open>/\<close> and \<^verbatim>\<open>.\<close>, and which texts the
  output file refuses to encode is read from the environment.
\<close>

datatype json =
    JNull
  | JBool bool
  | JInt int
  | JFloat string
  | JString string
  | JArray "json list"
  | JObject "(string \<times> json) list"

text \<open>
  The exceptions that can reach the handlers of the per-file \<^verbatim>\<open>try\<close> block, or leave
  the script uncaught. \<open>OtherError\<close> stands for any further subclass of \<^verbatim>\<open>Exception\<close>
  (a \<^verbatim>\<open>UnicodeDecodeError\<close> of the read, say), with its message.
\<close>

datatype exn =
    JSONDecodeError string
  | FileNotFoundError string
  | AttributeError string string
  | TypeError string
  | OSError string
  | OtherError string

definition quote :: "string \<Rightarrow> string" where
  "quote s = CHR 0x27 # s @ [CHR 0x27]"

text \<open>\<^verbatim>\<open>str(e)\<close>, as the handlers print it.\<close>

fun exn_str :: "exn \<Rightarrow> string" where
  "exn_str (JSONDecodeError msg) = msg"
| "exn_str (FileNotFoundError msg) = msg"
| "exn_str (AttributeError ty attr) = quote ty @ '' object has no attribute '' @ quote attr"
| "exn_str (TypeError msg) = msg"
| "exn_str (OSError msg) = msg"
| "exn_str (OtherError msg) = msg"

fun type_name :: "json \<Rightarrow> string" where
  "type_name JNull = ''NoneType''"
| "type_name (JBool _) = ''bool''"
| "type_name (JInt _) = ''int''"
| "type_name (JFloat _) = ''float''"
| "type_name (JString _) = ''str''"
| "type_name (JArray _) = ''list''"
| "type_name (JObject _) = ''dict''"

text \<open>\<^verbatim>\<open>d.get(k, default)\<close> and \<^verbatim>\<open>d.pop(k, None)\<close> on a dict.\<close>

definition dict_get :: "(string \<times> json) list \<Rightarrow> string \<Rightarrow> json \<Rightarrow> json" where
  "dict_get d k dflt = (case map_of d k of Some v \<Rightarrow> v | None \<Rightarrow> dflt)"

definition dict_pop :: "(string \<times> json) list \<Rightarrow> string \<Rightarrow> (string \<times> json) list" where
  "dict_pop d k = filter (\<lambda>kv. fst kv \<noteq> k) d"

text \<open>
  The same two method calls on an arbitrary parsed value: only a dict has \<^verbatim>\<open>get\<close>; a
  list has a \<^verbatim>\<open>pop\<close>, which rejects two arguments; the other types have neither.
\<close>

definition json_get :: "json \<Rightarrow> string \<Rightarrow> json \<Rightarrow> exn + json" where
  "json_get v k dflt =
     (case v of
        JObject d \<Rightarrow> Inr (dict_get d k dflt)
      | _ \<Rightarrow> Inl (AttributeError (type_name v) ''get''))"

definition json_pop :: "json \<Rightarrow> string \<Rightarrow> exn + json" where
  "json_pop v k =
     (case v of
        JObject d \<Rightarrow> Inr (JObject (dict_pop d k))
      | JArray _ \<Rightarrow> Inl (TypeError ''pop expected at most 1 argument, got 2'')
      | _ \<Rightarrow> Inl (AttributeError (type_name v) ''pop''))"

fun show_nat :: "nat \<Rightarrow> string" where
  "show_nat n =
     (if n < 10 then [''0123456789'' ! n]
      else show_nat (n div 10) @ [''0123456789'' ! (n mod 10)])"

declare show_nat.simps [simp del]

text \<open>\<^verbatim>\<open>sep.join(items)\<close>: every item must be a \<^verbatim>\<open>str\<close>.\<close>

fun join_items :: "nat \<Rightarrow> json list \<Rightarrow> exn + string list" where
  "join_items i [] = Inr []"
| "join_items i (v # vs) =
     (case v of
        JString s \<Rightarrow>
          (case join_items (Suc i) vs of
             Inl e \<Rightarrow> Inl e
           | Inr ss \<Rightarrow> Inr (s # ss))
      | _ \<Rightarrow>
          Inl (TypeError (''sequence item '' @ show_nat i @ '': expected str instance, ''
                          @ type_name v @ '' found'')))"

fun intersperse :: "string \<Rightarrow> string list \<Rightarrow> string" where
  "intersperse sep [] = []"
| "intersperse sep [s] = s"
| "intersperse sep (s # t # ss) = s @ sep @ intersperse sep (t # ss)"

definition join :: "string \<Rightarrow> json list \<Rightarrow> exn + string" where
  "join sep items =
     (case join_items 0 items of
        Inl e \<Rightarrow> Inl e
      | Inr ss \<Rightarrow> Inr (intersperse sep ss))"

section \<open>Paths\<close>

text \<open>\<^verbatim>\<open>str.rfind\<close> for one character: the last index, or \<open>-1\<close>.\<close>

definition rfind :: "char \<Rightarrow> string \<Rightarrow> int" where
  "rfind c s =
     (if c \<in> set s
      then int (length s) - 1 - int (length (takeWhile (\<lambda>x. x \<noteq> c) (rev s)))
      else - 1)"

text \<open>\<^verbatim>\<open>os.path.basename\<close> and \<^verbatim>\<open>os.path.splitext\<close> of \<^verbatim>\<open>posixpath\<close>.\<close>

definition basename :: "string \<Rightarrow> string" where
  "basename p = drop (nat (rfind CHR ''/'' p + 1)) p"

definition splitext :: "string \<Rightarrow> string \<times> string" where
  "splitext p =
     (let sepIndex = rfind CHR ''/'' p;
          dotIndex = rfind CHR ''.'' p
      in if dotIndex > sepIndex
            \<and> filter (\<lambda>c. c \<noteq> CHR ''.'') (drop (nat (sepIndex + 1)) (take (nat dotIndex) p)) \<noteq> []
         then (take (nat dotIndex) p, drop (nat dotIndex) p)
         else (p, []))"

section \<open>Configuration\<close>

definition source_directory :: string where
  "source_directory = ''premera_policies_abstracted''"

definition file_pattern :: string where
  "file_pattern = source_directory @ ''/'' @ ''*.json''"

definition output_filename :: string where
  "output_filename = ''policies_compact.txt''"

section \<open>The environment of a run\<close>

text \<open>
  What the script reads from outside: the names in the source directory in the order
  \<^verbatim>\<open>os.scandir\<close> yields them (\<open>None\<close> when the directory is missing or cannot be read),
  what \<^verbatim>\<open>open\<close> followed by \<^verbatim>\<open>json.load\<close> gives for a path, the exception that
  opening the output file for writing raises (\<open>None\<close> when it opens), the exception
  that \<^verbatim>\<open>outfile.write\<close> raises for a text (\<open>None\<close> when it is written: a
  \<^verbatim>\<open>UnicodeEncodeError\<close> of the strict UTF-8 encoder for a text holding a lone surrogate,
  an \<^verbatim>\<open>OSError\<close> of the device), and the content of the output file before the run
  (\<open>None\<close> when there is no such file). Printing to the console is taken to succeed.
\<close>

record world =
  listdir :: "string list option"
  load :: "string \<Rightarrow> exn + json"
  open_out :: "exn option"
  write_error :: "string \<Rightarrow> exn option"
  out_before :: "string option"

text \<open>
  \<^verbatim>\<open>glob.glob(file_pattern)\<close>: the directory scan swallows every \<^verbatim>\<open>OSError\<close>, names with
  a leading dot are hidden from a pattern without one, and the others are matched
  against \<^verbatim>\<open>*.json\<close>.
\<close>

definition ishidden :: "string \<Rightarrow> bool" where
  "ishidden name = (take 1 name = ''.'')"

definition fnmatch_json :: "string \<Rightarrow> bool" where
  "fnmatch_json name = suffix ''.json'' name"

definition glob :: "world \<Rightarrow> string list" where
  "glob w =
     (case listdir w of
        None \<Rightarrow> []
      | Some names \<Rightarrow>
          map (\<lambda>name. source_directory @ ''/'' @ name)
              (filter fnmatch_json (filter (\<lambda>name. \<not> ishidden name) names)))"

section \<open>Processing one file\<close>

record extracted_info =
  policyTitle :: json
  sourceFilename :: string
  treatments :: "json list"
  indications :: "json list"

text \<open>The three \<^verbatim>\<open>pop\<close> calls on one entry, and the loop over the entries.\<close>

definition strip_entry :: "json \<Rightarrow> exn + json" where
  "strip_entry t =
     (case json_pop t ''keywords'' of
        Inl e \<Rightarrow> Inl e
      | Inr t1 \<Rightarrow>
          (case json_pop t1 ''codes'' of
             Inl e \<Rightarrow> Inl e
           | Inr t2 \<Rightarrow> json_pop t2 ''id''))"

fun strip_entries :: "json list \<Rightarrow> exn + json list" where
  "strip_entries [] = Inr []"
| "strip_entries (t # ts) =
     (case strip_entry t of
        Inl e \<Rightarrow> Inl e
      | Inr t' \<Rightarrow>
          (case strip_entries ts of
             Inl e \<Rightarrow> Inl e
           | Inr ts' \<Rightarrow> Inr (t' # ts')))"

text \<open>\<^verbatim>\<open>[t.get('name', 'N/A') for t in entries]\<close>\<close>

fun entry_names :: "json list \<Rightarrow> exn + json list" where
  "entry_names [] = Inr []"
| "entry_names (t # ts) =
     (case json_get t ''name'' (JString ''N/A'') of
        Inl e \<Rightarrow> Inl e
      | Inr n \<Rightarrow>
          (case entry_names ts of
             Inl e \<Rightarrow> Inl e
           | Inr ns \<Rightarrow> Inr (n # ns)))"

text \<open>
  A replacement field \<^verbatim>\<open>{title}\<close> of an f-string: a \<^verbatim>\<open>str\<close> is inserted as it is, any
  other value through \<^verbatim>\<open>str()\<close>, which is the parameter \<open>py_str\<close>.
\<close>

definition format_field :: "(json \<Rightarrow> string) \<Rightarrow> json \<Rightarrow> string" where
  "format_field py_str v = (case v of JString s \<Rightarrow> s | _ \<Rightarrow> py_str v)"

text \<open>
  The type check of lines 50 to 55: the printed warning, if any, and the list used from
  there on.
\<close>

definition ensure_list :: "string \<Rightarrow> string \<Rightarrow> json \<Rightarrow> string list \<times> json list" where
  "ensure_list field base_filename v =
     (case v of
        JArray xs \<Rightarrow> ([], xs)
      | _ \<Rightarrow> ([''Warning: '' @ quote field @ '' in '' @ base_filename
                 @ '' is not a list. Using empty list.''], []))"

text \<open>
  Lines 57 to 82, which print nothing: the stripping loops, the record, the names and
  the compact string.
\<close>

definition summarise ::
  "(json \<Rightarrow> string) \<Rightarrow> string \<Rightarrow> json \<Rightarrow> json list \<Rightarrow> json list \<Rightarrow> exn + extracted_info \<times> string"
where
  "summarise py_str base_filename title ts0 is0 =
     (case strip_entries ts0 of
        Inl e \<Rightarrow> Inl e
      | Inr ts \<Rightarrow>
     (case strip_entries is0 of
        Inl e \<Rightarrow> Inl e
      | Inr is \<Rightarrow>
     (case entry_names ts of
        Inl e \<Rightarrow> Inl e
      | Inr treatment_names \<Rightarrow>
     (case entry_names is of
        Inl e \<Rightarrow> Inl e
      | Inr indication_names \<Rightarrow>
     (case join '', '' treatment_names of
        Inl e \<Rightarrow> Inl e
      | Inr tj \<Rightarrow>
     (case join '', '' indication_names of
        Inl e \<Rightarrow> Inl e
      | Inr ij \<Rightarrow>
          Inr (\<lparr>policyTitle = title, sourceFilename = base_filename,
                treatments = ts, indications = is\<rparr>,
               fst (splitext base_filename) @ '': '' @ format_field py_str title
                 @ '' Treatments: ['' @ tj @ '']; Indications: ['' @ ij @ '']'')))))))"

text \<open>
  How the body of the \<^verbatim>\<open>try\<close> block ends: with an exception, with the \<^verbatim>\<open>continue\<close> of
  line 39, or at line 86 with the record and the compact string.
\<close>

datatype flow =
    Raised exn
  | Continued
  | Completed extracted_info string

definition separator :: "string \<Rightarrow> string" where
  "separator base_filename = replicate (length base_filename + 20) CHR ''-''"

text \<open>Lines 43 to 86 on a root that is a dict: what is printed, and how the block ends.\<close>

definition extract_fields ::
  "(json \<Rightarrow> string) \<Rightarrow> string \<Rightarrow> (string \<times> json) list \<Rightarrow> string list \<times> flow"
where
  "extract_fields py_str base_filename data =
     (case json_get (dict_get data ''policyMetadata'' (JObject [])) ''policyTitle'' (JString ''N/A'') of
        Inl e \<Rightarrow> ([], Raised e)
      | Inr title \<Rightarrow>
          (let (w1, ts0) = ensure_list ''treatments'' base_filename
                             (dict_get data ''treatments'' (JArray []));
               (w2, is0) = ensure_list ''indications'' base_filename
                             (dict_get data ''indications'' (JArray []))
           in case summarise py_str base_filename title ts0 is0 of
                Inl e \<Rightarrow> (w1 @ w2, Raised e)
              | Inr (info, compact_output) \<Rightarrow>
                  (w1 @ w2 @ [compact_output], Completed info compact_output)))"

text \<open>Lines 31 to 86: the whole \<^verbatim>\<open>try\<close> body.\<close>

definition try_body :: "world \<Rightarrow> (json \<Rightarrow> string) \<Rightarrow> string \<Rightarrow> string list \<times> flow" where
  "try_body w py_str file_path =
     (let base_filename = basename file_path
      in case load w file_path of
           Inl e \<Rightarrow> ([], Raised e)
         | Inr (JObject data) \<Rightarrow> extract_fields py_str base_filename data
         | Inr _ \<Rightarrow>
             ([''Skipping '' @ base_filename @ '': Root element is not a JSON object (dictionary).'',
               separator base_filename], Continued))"

text \<open>The three \<^verbatim>\<open>except\<close> clauses, in the order they are tried.\<close>

fun handler :: "string \<Rightarrow> exn \<Rightarrow> string" where
  "handler base_filename (JSONDecodeError msg) =
     ''Skipping '' @ base_filename @ '': Invalid JSON structure - '' @ exn_str (JSONDecodeError msg)"
| "handler base_filename (FileNotFoundError msg) =
     ''Skipping '' @ base_filename @ '': File not found.''"
| "handler base_filename e =
     ''Skipping '' @ base_filename @ '': An unexpected error occurred - '' @ exn_str e"

record state =
  console :: "string list"
  all_extracted_data :: "string list"

text \<open>One iteration of the loop of line 25.\<close>

definition process_file :: "world \<Rightarrow> (json \<Rightarrow> string) \<Rightarrow> state \<Rightarrow> string \<Rightarrow> state" where
  "process_file w py_str st file_path =
     (let base_filename = basename file_path;
          (printed, fl) = try_body w py_str file_path;
          out = console st @ [''--- Processing: '' @ base_filename @ '' ---''] @ printed
      in case fl of
           Continued \<Rightarrow> st\<lparr>console := out\<rparr>
         | Raised e \<Rightarrow>
             st\<lparr>console := out @ [handler base_filename e, separator base_filename]\<rparr>
         | Completed info compact_output \<Rightarrow>
             st\<lparr>console := out @ [separator base_filename],
                all_extracted_data := all_extracted_data st @ [compact_output]\<rparr>)"

section \<open>The run\<close>

datatype status = Exited | Uncaught exn

record result =
  printed :: "string list"
  final :: status
  out_after :: "string option"

text \<open>
  Lines 109 and 110, on the file that line 107 opened and truncated: the writes in
  order, until one raises. The result is what the file holds when the \<^verbatim>\<open>with\<close> block
  is left, and the exception that leaves it, if any.
\<close>

fun write_all :: "(string \<Rightarrow> exn option) \<Rightarrow> string list \<Rightarrow> string \<Rightarrow> string \<times> exn option" where
  "write_all werr [] content = (content, None)"
| "write_all werr (line # ls) content =
     (case werr (line @ [CHR 0x0A]) of
        Some e \<Rightarrow> (content, Some e)
      | None \<Rightarrow> write_all werr ls (content @ line @ [CHR 0x0A]))"

text \<open>Lines 16 to 111, for the list \<^verbatim>\<open>glob.glob\<close> returned.\<close>

definition run_files :: "world \<Rightarrow> (json \<Rightarrow> string) \<Rightarrow> string list \<Rightarrow> result" where
  "run_files w py_str json_files =
     (if json_files = []
      then \<lparr>printed = [''No files found matching pattern: '' @ file_pattern],
            final = Exited, out_after = out_before w\<rparr>
      else
        (let st0 = \<lparr>console = [''Found '' @ show_nat (length json_files)
                                 @ '' files matching pattern. Processing...'' @ [CHR 0x0A]],
                    all_extracted_data = []\<rparr>;
             st = foldl (process_file w py_str) st0 json_files;
             out = console st @ [CHR 0x0A # ''Processing complete. Extracted data from ''
                                   @ show_nat (length (all_extracted_data st)) @ '' valid files.'']
         in if all_extracted_data st \<noteq> []
            then (case open_out w of
                    Some e \<Rightarrow>
                      \<lparr>printed = out, final = Uncaught e, out_after = out_before w\<rparr>
                  | None \<Rightarrow>
                      (case write_all (write_error w) (all_extracted_data st) [] of
                         (content, None) \<Rightarrow>
                           \<lparr>printed = out @ [CHR 0x0A # ''Compact data saved to ''
                                                  @ output_filename],
                            final = Exited, out_after = Some content\<rparr>
                       | (content, Some e) \<Rightarrow>
                           \<lparr>printed = out, final = Uncaught e, out_after = Some content\<rparr>))
            else \<lparr>printed = out, final = Exited, out_after = out_before w\<rparr>))"

definition run :: "world \<Rightarrow> (json \<Rightarrow> string) \<Rightarrow> result" where
  "run w py_str = run_files w py_str (glob w)"

section \<open>Notions used in the statements\<close>

definition is_object :: "json \<Rightarrow> bool" where
  "is_object v = (case v of JObject _ \<Rightarrow> True | _ \<Rightarrow> False)"

definition is_list :: "json \<Rightarrow> bool" where
  "is_list v = (case v of JArray _ \<Rightarrow> True | _ \<Rightarrow> False)"

text \<open>The exceptions that only the last clause, \<^verbatim>\<open>except Exception\<close>, catches.\<close>

fun unexpected :: "exn \<Rightarrow> bool" where
  "unexpected (JSONDecodeError _) = False"
| "unexpected (FileNotFoundError _) = False"
| "unexpected _ = True"

text \<open>The line a file contributes to \<open>all_extracted_data\<close>, if it does.\<close>

definition compact_line_of :: "world \<Rightarrow> (json \<Rightarrow> string) \<Rightarrow> string \<Rightarrow> string option" where
  "compact_line_of w py_str file_path =
     (case snd (try_body w py_str file_path) of
        Completed info compact_output \<Rightarrow> Some compact_output
      | _ \<Rightarrow> None)"


definition stripped_fields :: "string set" where
  "stripped_fields = {''keywords'', ''codes'', ''id''}"

text \<open>The warning of lines 51 and 54.\<close>

definition warning :: "string \<Rightarrow> string \<Rightarrow> string" where
  "warning field base_filename =
     ''Warning: '' @ quote field @ '' in '' @ base_filename @ '' is not a list. Using empty list.''"

section \<open>Example inputs\<close>

text \<open>
  In the examples every title is a \<^verbatim>\<open>str\<close> or absent, so \<^verbatim>\<open>str()\<close> is never applied
  to another value; the examples pass this function for \<open>py_str\<close>.
\<close>

definition str_unused :: "json \<Rightarrow> string" where
  "str_unused v = []"

definition sample_doc :: json where
  "sample_doc =
     JObject [(''policyMetadata'', JObject [(''policyTitle'', JString ''Test Policy'')]),
              (''treatments'', JArray [JObject [(''name'', JString ''Surgery''),
                                                (''id'', JString ''X1'')]]),
              (''indications'', JArray [JObject [(''name'', JString ''Diabetes'')]])]"

definition sample_path :: string where
  "sample_path = ''premera_policies_abstracted/sample.json''"

definition sample_world :: world where
  "sample_world =
     \<lparr>listdir = Some [''sample.json''],
      load = (\<lambda>p. if p = sample_path then Inr sample_doc
                   else Inl (FileNotFoundError ''No such file or directory'')),
      open_out = None,
      write_error = (\<lambda>text. None),
      out_before = None\<rparr>"

definition sample_line :: string where
  "sample_line = ''sample: Test Policy Treatments: [Surgery]; Indications: [Diabetes]''"

definition sample_info :: extracted_info where
  "sample_info =
     \<lparr>policyTitle = JString ''Test Policy'', sourceFilename = ''sample.json'',
      treatments = [JObject [(''name'', JString ''Surgery'')]],
      indications = [JObject [(''name'', JString ''Diabetes'')]]\<rparr>"

definition one_file_world :: "string \<Rightarrow> exn + json \<Rightarrow> world" where
  "one_file_world name r =
     \<lparr>listdir = Some [name],
      load = (\<lambda>p. if p = source_directory @ ''/'' @ name then r
                   else Inl (FileNotFoundError ''No such file or directory'')),
      open_out = None,
      write_error = (\<lambda>text. None),
      out_before = Some ''old''\<rparr>"

definition array_doc :: json where
  "array_doc = JArray [JObject [(''name'', JString ''Surgery'')]]"

definition no_match_world :: world where
  "no_match_world =
     \<lparr>listdir = Some [''notes.txt'', ''.hidden.json''],
      load = (\<lambda>p. Inl (FileNotFoundError ''No such file or directory'')),
      open_out = None,
      write_error = (\<lambda>text. None),
      out_before = Some ''old''\<rparr>"

definition bad_entry_fields :: "(string \<times> json) list" where
  "bad_entry_fields =
     [(''policyMetadata'', JObject [(''policyTitle'', JString ''Test Policy'')]),
      (''treatments'', JArray [JObject [(''name'', JString ''Surgery'')], JString ''Physio''])]"

definition bad_metadata_fields :: "(string \<times> json) list" where
  "bad_metadata_fields =
     [(''policyMetadata'', JString ''Test Policy''), (''treatments'', JInt 5)]"

definition not_list_fields :: "(string \<times> json) list" where
  "not_list_fields = [(''treatments'', JInt 5), (''indications'', JArray [JInt 3])]"

definition text_field_fields :: "(string \<times> json) list" where
  "text_field_fields = [(''treatments'', JString ''none'')]"





section \<open>Stripping the verbose fields\<close>

lemma handler_unexpected:
  "unexpected e \<Longrightarrow>
   handler b e = ''Skipping '' @ b @ '': An unexpected error occurred - '' @ exn_str e"
  by (cases e) simp_all

lemma json_pop_object: "json_pop (JObject d) k = Inr (JObject (dict_pop d k))"
  by (simp add: json_pop_def)

lemma json_pop_other:
  "\<not> is_object v \<Longrightarrow> \<exists>e. json_pop v k = Inl e \<and> unexpected e"
  by (cases v) (simp_all add: json_pop_def is_object_def)

lemma strip_entry_object:
  "strip_entry (JObject d) = Inr (JObject (filter (\<lambda>kv. fst kv \<notin> stripped_fields) d))"
  by (simp add: strip_entry_def json_pop_object dict_pop_def stripped_fields_def
        conj_commute conj_left_commute)

lemma strip_entry_other:
  "\<not> is_object v \<Longrightarrow> \<exists>e. strip_entry v = Inl e \<and> unexpected e"
  using json_pop_other [of v "''keywords''"] by (auto simp: strip_entry_def)

lemma strip_entry_Inl: "strip_entry v = Inl e \<Longrightarrow> unexpected e"
  using strip_entry_other [of v] by (cases v) (auto simp: is_object_def strip_entry_object)

lemma strip_entry_Inr:
  "strip_entry t = Inr t' \<Longrightarrow>
   \<exists>d. t = JObject d \<and> t' = JObject (filter (\<lambda>kv. fst kv \<notin> stripped_fields) d)"
  using strip_entry_other [of t] by (cases t) (auto simp: is_object_def strip_entry_object)

lemma strip_entries_Inl: "strip_entries ts = Inl e \<Longrightarrow> unexpected e"
  by (induction ts arbitrary: e) (auto split: sum.splits dest: strip_entry_Inl)

lemma strip_entries_Inr:
  "strip_entries ts = Inr ts' \<Longrightarrow>
   list_all2 (\<lambda>t t'. \<exists>d. t = JObject d
                \<and> t' = JObject (filter (\<lambda>kv. fst kv \<notin> stripped_fields) d)) ts ts'"
proof (induction ts arbitrary: ts')
  case Nil
  then show ?case by simp
next
  case (Cons t ts)
  then show ?case
    by (auto split: sum.splits dest: strip_entry_Inr)
qed

lemma strip_entries_bad:
  assumes "t \<in> set ts" and "\<not> is_object t"
  shows "\<exists>e. strip_entries ts = Inl e \<and> unexpected e"
proof (cases "strip_entries ts")
  case (Inl e)
  then show ?thesis by (auto dest: strip_entries_Inl)
next
  case (Inr ts')
  from strip_entries_Inr [OF Inr] assms(1) have "\<exists>d. t = JObject d"
    by (auto simp: list_all2_conv_all_nth in_set_conv_nth)
  with assms(2) show ?thesis by (auto simp: is_object_def)
qed

lemma strip_entries_stripped:
  assumes "strip_entries ts = Inr ts'" and "t' \<in> set ts'"
  shows "\<exists>d. t' = JObject d \<and> fst ` set d \<inter> stripped_fields = {}"
proof -
  from strip_entries_Inr [OF assms(1)] assms(2)
  obtain d where "t' = JObject (filter (\<lambda>kv. fst kv \<notin> stripped_fields) d)"
    by (auto simp: list_all2_conv_all_nth in_set_conv_nth)
  then show ?thesis by auto
qed

lemma try_body_Completed:
  assumes "try_body w py_str file_path = (out, Completed info line)"
  shows "\<exists>title ts0 is0. summarise py_str (basename file_path) title ts0 is0 = Inr (info, line)"
  using assms
  by (auto simp: try_body_def extract_fields_def Let_def split: sum.splits json.splits prod.splits)

lemma summarise_Inr:
  assumes "summarise py_str b title ts0 is0 = Inr (info, line)"
  shows "strip_entries ts0 = Inr (treatments info) \<and> strip_entries is0 = Inr (indications info)"
  using assms by (auto simp: summarise_def split: sum.splits)

section \<open>The loop and the run\<close>

lemma process_file_Raised:
  "try_body w py_str p = (out, Raised e) \<Longrightarrow>
   process_file w py_str st p =
     st\<lparr>console := console st @ [''--- Processing: '' @ basename p @ '' ---''] @ out
                      @ [handler (basename p) e, separator (basename p)]\<rparr>"
  by (simp add: process_file_def Let_def)

lemma process_file_Continued:
  "try_body w py_str p = (out, Continued) \<Longrightarrow>
   process_file w py_str st p =
     st\<lparr>console := console st @ [''--- Processing: '' @ basename p @ '' ---''] @ out\<rparr>"
  by (simp add: process_file_def Let_def)

lemma process_file_Completed:
  "try_body w py_str p = (out, Completed info line) \<Longrightarrow>
   process_file w py_str st p =
     st\<lparr>console := console st @ [''--- Processing: '' @ basename p @ '' ---''] @ out
                      @ [separator (basename p)],
        all_extracted_data := all_extracted_data st @ [line]\<rparr>"
  by (simp add: process_file_def Let_def)

lemma process_file_data:
  "all_extracted_data (process_file w py_str st p) =
   all_extracted_data st @ (case compact_line_of w py_str p of Some l \<Rightarrow> [l] | None \<Rightarrow> [])"
proof (cases "try_body w py_str p")
  case (Pair out fl)
  then show ?thesis
    by (cases fl) (simp_all add: process_file_def compact_line_of_def Let_def)
qed

lemma foldl_data:
  "all_extracted_data (foldl (process_file w py_str) st ps) =
   all_extracted_data st @ List.map_filter (compact_line_of w py_str) ps"
  by (induction ps arbitrary: st) (simp_all add: process_file_data List.map_filter_simps split: option.splits)




lemma run_files_out:
  "out_after (run_files w py_str ps) =
     (if List.map_filter (compact_line_of w py_str) ps = [] \<or> open_out w \<noteq> None
      then out_before w
      else Some (fst (write_all (write_error w) (List.map_filter (compact_line_of w py_str) ps) [])))"
  by (auto simp: run_files_def Let_def foldl_data List.map_filter_simps
      split: option.splits prod.splits)



section \<open>The body of the try block\<close>

lemma try_body_not_object:
  assumes "load w p = Inr v" and "\<not> is_object v"
  shows "try_body w py_str p =
     ([''Skipping '' @ basename p @ '': Root element is not a JSON object (dictionary).'',
       separator (basename p)], Continued)"
  using assms by (cases v) (simp_all add: try_body_def is_object_def Let_def)

lemma try_body_object:
  "load w p = Inr (JObject data) \<Longrightarrow> try_body w py_str p = extract_fields py_str (basename p) data"
  by (simp add: try_body_def Let_def)

lemma dict_get_Cons:
  "dict_get ((k, v) # d) k' dflt = (if k' = k then v else dict_get d k' dflt)"
  by (simp add: dict_get_def)

lemma dict_get_None: "map_of d k = None \<Longrightarrow> dict_get d k dflt = dflt"
  by (simp add: dict_get_def)

lemma dict_get_Some: "map_of d k = Some v \<Longrightarrow> dict_get d k dflt = v"
  by (simp add: dict_get_def)

lemma dict_get_pop:
  "dict_get (dict_pop d k) k' dflt = (if k' = k then dflt else dict_get d k' dflt)"
  by (induction d) (auto simp: dict_get_def dict_pop_def)

lemma json_get_Inl: "json_get v k dflt = Inl e \<Longrightarrow> unexpected e"
  by (cases v) (auto simp: json_get_def)

lemma entry_names_Inl: "entry_names ts = Inl e \<Longrightarrow> unexpected e"
  by (induction ts arbitrary: e) (auto split: sum.splits dest: json_get_Inl)

lemma join_items_Inl: "join_items i vs = Inl e \<Longrightarrow> unexpected e"
  by (induction vs arbitrary: i e) (auto split: sum.splits json.splits)

lemma join_Inl: "join sep vs = Inl e \<Longrightarrow> unexpected e"
  by (auto simp: join_def split: sum.splits dest: join_items_Inl)

lemma summarise_Inl: "summarise py_str b title ts0 is0 = Inl e \<Longrightarrow> unexpected e"
  by (auto simp: summarise_def split: sum.splits
      dest: strip_entries_Inl entry_names_Inl join_Inl)

lemma summarise_bad:
  assumes "t \<in> set ts0 \<union> set is0" and "\<not> is_object t"
  shows "\<exists>e. summarise py_str b title ts0 is0 = Inl e \<and> unexpected e"
proof (cases "summarise py_str b title ts0 is0")
  case (Inl e)
  then show ?thesis by (auto dest: summarise_Inl)
next
  case (Inr r)
  then obtain info line where "summarise py_str b title ts0 is0 = Inr (info, line)"
    by (cases r) simp
  from summarise_Inr [OF this] assms strip_entries_bad [of t ts0] strip_entries_bad [of t is0]
  show ?thesis by auto
qed

lemma summarise_Inr_line:
  assumes "summarise py_str b title ts0 is0 = Inr (info, line)"
  shows "policyTitle info = title \<and> sourceFilename info = b
       \<and> (\<exists>tj ij. line = fst (splitext b) @ '': '' @ format_field py_str title
                      @ '' Treatments: ['' @ tj @ '']; Indications: ['' @ ij @ '']'')"
  using assms by (auto simp: summarise_def split: sum.splits)

lemma extract_fields_Raised: "extract_fields py_str b data = (out, Raised e) \<Longrightarrow> unexpected e"
  by (auto simp: extract_fields_def Let_def split: sum.splits prod.splits
      dest: json_get_Inl summarise_Inl)

lemma ensure_list_JArray: "ensure_list field b (JArray xs) = ([], xs)"
  by (simp add: ensure_list_def)

lemma ensure_list_other: "\<not> is_list v \<Longrightarrow> ensure_list field b v = ([warning field b], [])"
  by (cases v) (simp_all add: ensure_list_def is_list_def warning_def)

lemma extract_fields_non_list:
  assumes "field = ''treatments'' \<or> field = ''indications''"
    and "map_of data field = Some v" and "\<not> is_list v"
  shows "snd (extract_fields py_str b data) = snd (extract_fields py_str b ((field, JArray []) # dict_pop data field))
       \<and> (is_object (dict_get data ''policyMetadata'' (JObject [])) \<longrightarrow>
            (\<exists>pre post. fst (extract_fields py_str b ((field, JArray []) # dict_pop data field)) = pre @ post
               \<and> fst (extract_fields py_str b data) = pre @ [warning field b] @ post))"
proof (cases "json_get (dict_get data ''policyMetadata'' (JObject [])) ''policyTitle'' (JString ''N/A'')")
  case (Inl e)
  then have "\<not> is_object (dict_get data ''policyMetadata'' (JObject []))"
    by (auto simp: json_get_def is_object_def split: json.splits)
  with Inl assms(1) show ?thesis
    by (auto simp: extract_fields_def dict_get_Cons dict_get_pop)
next
  case (Inr title)
  from assms(1) show ?thesis
  proof
    assume f: "field = ''treatments''"
    obtain w2 is0 where e2: "ensure_list ''indications'' b (dict_get data ''indications'' (JArray [])) = (w2, is0)"
      by (cases "ensure_list ''indications'' b (dict_get data ''indications'' (JArray []))")
    from f assms(2,3) have e1: "ensure_list ''treatments'' b (dict_get data ''treatments'' (JArray []))
        = ([warning ''treatments'' b], [])"
      by (simp add: dict_get_Some ensure_list_other)
    show ?thesis
    proof (cases "summarise py_str b title [] is0")
      case (Inl e)
      with Inr e1 e2 f show ?thesis
        apply (simp add: extract_fields_def dict_get_Cons dict_get_pop ensure_list_JArray)
        apply (rule impI)
        apply (rule exI [of _ "[]"])
        apply simp
        done
    next
      case (Inr r)
      obtain info line where "r = (info, line)" by (cases r)
      with Inr \<open>json_get _ _ _ = Inr title\<close> e1 e2 f show ?thesis
        apply (simp add: extract_fields_def dict_get_Cons dict_get_pop ensure_list_JArray)
        apply (rule impI)
        apply (rule exI [of _ "[]"])
        apply simp
        done
    qed
  next
    assume f: "field = ''indications''"
    obtain w1 ts0 where e1: "ensure_list ''treatments'' b (dict_get data ''treatments'' (JArray [])) = (w1, ts0)"
      by (cases "ensure_list ''treatments'' b (dict_get data ''treatments'' (JArray []))")
    from f assms(2,3) have e2: "ensure_list ''indications'' b (dict_get data ''indications'' (JArray []))
        = ([warning ''indications'' b], [])"
      by (simp add: dict_get_Some ensure_list_other)
    show ?thesis
    proof (cases "summarise py_str b title ts0 []")
      case (Inl e)
      with Inr e1 e2 f show ?thesis
        apply (simp add: extract_fields_def dict_get_Cons dict_get_pop ensure_list_JArray)
        apply (rule impI)
        apply (rule exI [of _ "w1"])
        apply simp
        done
    next
      case (Inr r)
      obtain info line where "r = (info, line)" by (cases r)
      with Inr \<open>json_get _ _ _ = Inr title\<close> e1 e2 f show ?thesis
        apply (simp add: extract_fields_def dict_get_Cons dict_get_pop ensure_list_JArray)
        apply (rule impI)
        apply (rule exI [of _ "w1"])
        apply simp
        done
    qed
  qed
qed

lemma extract_fields_absent:
  assumes "field = ''treatments'' \<or> field = ''indications''"
    and "map_of data field = None"
  shows "extract_fields py_str b data = extract_fields py_str b ((field, JArray []) # data)"
  using assms
  by (auto simp: extract_fields_def dict_get_Cons dict_get_None cong: sum.case_cong)

section \<open>The claims\<close>




text \<open>
  C2. For the file \<^verbatim>\<open>sample.json\<close> holding the document of the specification (a title
  \<^verbatim>\<open>Test Policy\<close>, one treatment \<^verbatim>\<open>Surgery\<close> with an \<^verbatim>\<open>id\<close>, one indication
  \<^verbatim>\<open>Diabetes\<close>), the \<^verbatim>\<open>try\<close> body prints and collects exactly the string
  \<^verbatim>\<open>sample: Test Policy Treatments: [Surgery]; Indications: [Diabetes]\<close>, and a run over a
  directory holding only that file writes this line, newline-terminated, to the output.
\<close>

theorem sample_compact_line:
  "try_body sample_world py_str sample_path = ([sample_line], Completed sample_info sample_line)
   \<and> glob sample_world = [sample_path]
   \<and> out_after (run sample_world py_str) = Some (sample_line @ [CHR 0x0A])
   \<and> sample_line = ''sample: Test Policy Treatments: [Surgery]; Indications: [Diabetes]''"
  by code_simp




text \<open>
  C4. One iteration either appends nothing and prints a diagnostic
  \<^verbatim>\<open>Skipping <name>: ...\<close>, or appends exactly one line, which it prints followed by the
  separator. Over the whole loop the number of skipped files plus the number of collected
  lines is the number of discovered files.
\<close>

theorem one_outcome_per_file:
  "(case compact_line_of w py_str p of
      None \<Rightarrow>
        all_extracted_data (process_file w py_str st p) = all_extracted_data st
        \<and> (\<exists>pre msg post. console (process_file w py_str st p)
               = console st @ pre @ [''Skipping '' @ basename p @ '': '' @ msg] @ post)
    | Some line \<Rightarrow>
        all_extracted_data (process_file w py_str st p) = all_extracted_data st @ [line]
        \<and> (\<exists>pre. console (process_file w py_str st p)
               = console st @ pre @ [line, separator (basename p)]))
   \<and> length (filter (\<lambda>p. compact_line_of w py_str p = None) ps)
       + length (all_extracted_data
           (foldl (process_file w py_str) \<lparr>console = c, all_extracted_data = []\<rparr> ps))
     = length ps"
proof (rule conjI)
  obtain out fl where tb: "try_body w py_str p = (out, fl)" by (cases "try_body w py_str p")
  show "case compact_line_of w py_str p of
      None \<Rightarrow>
        all_extracted_data (process_file w py_str st p) = all_extracted_data st
        \<and> (\<exists>pre msg post. console (process_file w py_str st p)
               = console st @ pre @ [''Skipping '' @ basename p @ '': '' @ msg] @ post)
    | Some line \<Rightarrow>
        all_extracted_data (process_file w py_str st p) = all_extracted_data st @ [line]
        \<and> (\<exists>pre. console (process_file w py_str st p)
               = console st @ pre @ [line, separator (basename p)])"
  proof (cases fl)
    case (Raised e)
    have "\<exists>msg. handler (basename p) e = ''Skipping '' @ basename p @ '': '' @ msg"
      by (cases e) simp_all
    then obtain msg where "handler (basename p) e = ''Skipping '' @ basename p @ '': '' @ msg" ..
    with tb Raised show ?thesis
      apply (simp add: compact_line_of_def process_file_Raised del: append.simps)
      apply (rule exI [of _ "(''--- Processing: '' @ basename p @ '' ---'') # out"])
      apply (rule exI [of _ msg])
      apply (rule exI [of _ "[separator (basename p)]"])
      apply simp
      done
  next
    case Continued
    from tb Continued obtain v where v: "load w p = Inr v" "\<not> is_object v"
      by (auto simp: try_body_def extract_fields_def is_object_def Let_def
          split: sum.splits json.splits prod.splits)
    from tb Continued try_body_not_object [OF v, of py_str] show ?thesis
      apply (simp add: compact_line_of_def process_file_Continued del: append.simps)
      apply (rule exI [of _ "[''--- Processing: '' @ basename p @ '' ---'']"])
      apply (rule exI [of _ "''Root element is not a JSON object (dictionary).''"])
      apply (rule exI [of _ "[separator (basename p)]"])
      apply simp
      done
  next
    case (Completed info line)
    from tb Completed have "\<exists>pre. out = pre @ [line]"
      by (auto simp: try_body_def extract_fields_def Let_def
          split: sum.splits json.splits prod.splits)
    then obtain pre where "out = pre @ [line]" ..
    with tb Completed show ?thesis
      by (simp add: compact_line_of_def process_file_Completed del: append.simps)
  qed
next
  have "length (List.map_filter (compact_line_of w py_str) ps)
        = length (filter (\<lambda>p. compact_line_of w py_str p \<noteq> None) ps)"
    by (simp add: List.map_filter_def)
  moreover have "length (filter (\<lambda>p. compact_line_of w py_str p = None) ps)
        + length (filter (\<lambda>p. compact_line_of w py_str p \<noteq> None) ps) = length ps"
    using sum_length_filter_compl [of "\<lambda>p. compact_line_of w py_str p = None" ps] by simp
  ultimately show "length (filter (\<lambda>p. compact_line_of w py_str p = None) ps)
       + length (all_extracted_data
           (foldl (process_file w py_str) \<lparr>console = c, all_extracted_data = []\<rparr> ps))
     = length ps"
    by (simp add: foldl_data)
qed

text \<open>
  C5. A file whose parsed root is not an object prints the root-element diagnostic and
  its own separator, appends no line, and leaves the collected lines and the output file
  of the run what they are without that file.
\<close>

theorem root_not_object_skipped:
  assumes "load w p = Inr v" and "\<not> is_object v"
  shows "process_file w py_str st p =
           st\<lparr>console := console st @
             [''--- Processing: '' @ basename p @ '' ---'',
              ''Skipping '' @ basename p @ '': Root element is not a JSON object (dictionary).'',
              separator (basename p)]\<rparr>
         \<and> compact_line_of w py_str p = None
         \<and> all_extracted_data (foldl (process_file w py_str) st (ps1 @ p # ps2))
             = all_extracted_data (foldl (process_file w py_str) st (ps1 @ ps2))
         \<and> out_after (run_files w py_str (ps1 @ p # ps2)) = out_after (run_files w py_str (ps1 @ ps2))"
proof -
  note tb = try_body_not_object [OF assms, of py_str]
  then have n: "compact_line_of w py_str p = None" by (simp add: compact_line_of_def)
  have m: "List.map_filter (compact_line_of w py_str) (ps1 @ p # ps2)
         = List.map_filter (compact_line_of w py_str) (ps1 @ ps2)"
    using n by (simp add: List.map_filter_def)
  show ?thesis
    using tb n m by (simp add: process_file_Continued foldl_data run_files_out del: foldl_append)
qed

theorem root_not_object_skipped_witness:
  "load (one_file_world ''list.json'' (Inr array_doc)) ''premera_policies_abstracted/list.json'' = Inr array_doc
   \<and> \<not> is_object array_doc
   \<and> glob (one_file_world ''list.json'' (Inr array_doc)) = [] @ ''premera_policies_abstracted/list.json'' # []
   \<and> compact_line_of (one_file_world ''list.json'' (Inr array_doc)) str_unused ''premera_policies_abstracted/list.json'' = None
   \<and> out_after (run (one_file_world ''list.json'' (Inr array_doc)) str_unused) = Some ''old''"
proof -
  let ?w = "one_file_world ''list.json'' (Inr array_doc)"
  let ?p = "''premera_policies_abstracted/list.json''"
  have a: "load ?w ?p = Inr array_doc" by (simp add: one_file_world_def source_directory_def)
  have b: "\<not> is_object array_doc" by (simp add: is_object_def array_doc_def)
  have c: "glob ?w = [] @ ?p # []" by code_simp
  have d: "out_after (run_files ?w str_unused ([] @ [])) = Some ''old''"
    by (simp add: run_files_def one_file_world_def)
  from root_not_object_skipped [OF a b, of str_unused _ "[]" "[]"] c d
  have "compact_line_of ?w str_unused ?p = None \<and> out_after (run ?w str_unused) = Some ''old''"
    by (simp add: run_def)
  with a b c show ?thesis by simp
qed

text \<open>
  C6. The three \<^verbatim>\<open>pop\<close> calls never fail on an object: they return the entry without the
  keys \<^verbatim>\<open>keywords\<close>, \<^verbatim>\<open>codes\<close> and \<^verbatim>\<open>id\<close>, every other key keeping its value; an entry
  with none of the three is returned unchanged, and stripping the result again changes
  nothing. Every entry of the record built for a processed file is such an object.
\<close>

theorem stripped_fields_absent:
  "(\<exists>d'. strip_entry (JObject d) = Inr (JObject d')
         \<and> fst ` set d' = fst ` set d - stripped_fields
         \<and> (\<forall>k. k \<notin> stripped_fields \<longrightarrow> map_of d' k = map_of d k)
         \<and> strip_entry (JObject d') = Inr (JObject d')
         \<and> (fst ` set d \<inter> stripped_fields = {} \<longrightarrow> d' = d))
   \<and> (try_body w py_str file_path = (out, Completed info line)
        \<longrightarrow> t \<in> set (treatments info) \<union> set (indications info)
        \<longrightarrow> (\<exists>d. t = JObject d \<and> fst ` set d \<inter> stripped_fields = {}
                  \<and> strip_entry t = Inr t))"
proof (intro conjI impI)
  let ?d' = "filter (\<lambda>kv. fst kv \<notin> stripped_fields) d"
  have 1: "fst ` set ?d' = fst ` set d - stripped_fields" by auto
  have 2: "\<forall>k. k \<notin> stripped_fields \<longrightarrow> map_of ?d' k = map_of d k"
    by (induction d) auto
  have 3: "filter (\<lambda>kv. fst kv \<notin> stripped_fields) ?d' = ?d'" by simp
  have 4: "fst ` set d \<inter> stripped_fields = {} \<longrightarrow> ?d' = d"
    by (auto simp: filter_id_conv)
  show "\<exists>d'. strip_entry (JObject d) = Inr (JObject d')
         \<and> fst ` set d' = fst ` set d - stripped_fields
         \<and> (\<forall>k. k \<notin> stripped_fields \<longrightarrow> map_of d' k = map_of d k)
         \<and> strip_entry (JObject d') = Inr (JObject d')
         \<and> (fst ` set d \<inter> stripped_fields = {} \<longrightarrow> d' = d)"
    using 1 2 3 4 by (intro exI [of _ ?d']) (simp only: strip_entry_object simp_thms)
next
  assume a: "try_body w py_str file_path = (out, Completed info line)"
    and t: "t \<in> set (treatments info) \<union> set (indications info)"
  from try_body_Completed [OF a] obtain title ts0 is0
    where "summarise py_str (basename file_path) title ts0 is0 = Inr (info, line)" by blast
  from summarise_Inr [OF this] t obtain d where d: "t = JObject d" "fst ` set d \<inter> stripped_fields = {}"
    by (auto dest: strip_entries_stripped)
  then have "filter (\<lambda>kv. fst kv \<notin> stripped_fields) d = d" by (auto simp: filter_id_conv)
  with d show "\<exists>d. t = JObject d \<and> fst ` set d \<inter> stripped_fields = {} \<and> strip_entry t = Inr t"
    by (simp add: strip_entry_object)
qed

theorem stripped_fields_absent_witness:
  "try_body sample_world str_unused sample_path = ([sample_line], Completed sample_info sample_line)
   \<and> JObject [(''name'', JString ''Surgery'')] \<in> set (treatments sample_info) \<union> set (indications sample_info)
   \<and> strip_entry (JObject [(''name'', JString ''Surgery''), (''id'', JString ''X1'')]) = Inr (JObject [(''name'', JString ''Surgery'')])
   \<and> ''id'' \<in> stripped_fields
   \<and> fst ` set [(''name'', JString ''Surgery'')] \<inter> stripped_fields = {}
   \<and> strip_entry (JObject [(''name'', JString ''Surgery'')]) = Inr (JObject [(''name'', JString ''Surgery'')])"
proof -
  have a: "try_body sample_world str_unused sample_path = ([sample_line], Completed sample_info sample_line)"
    by code_simp
  have b: "JObject [(''name'', JString ''Surgery'')] \<in> set (treatments sample_info) \<union> set (indications sample_info)"
    by (simp add: sample_info_def)
  have c: "strip_entry (JObject [(''name'', JString ''Surgery''), (''id'', JString ''X1'')]) = Inr (JObject [(''name'', JString ''Surgery'')])"
    by code_simp
  have d: "''id'' \<in> stripped_fields" by (simp add: stripped_fields_def)
  from stripped_fields_absent [THEN conjunct2, rule_format, OF a b]
  have "fst ` set [(''name'', JString ''Surgery'')] \<inter> stripped_fields = {} \<and>
     strip_entry (JObject [(''name'', JString ''Surgery'')]) = Inr (JObject [(''name'', JString ''Surgery'')])"
    by simp
  with a b c d show ?thesis by simp
qed

text \<open>
  C7, as stated, fails: a file whose \<^verbatim>\<open>treatments\<close> is the number 5 and whose
  \<^verbatim>\<open>indications\<close> list holds a number prints the warning and is then skipped; a file
  whose \<^verbatim>\<open>policyMetadata\<close> is a string is skipped before any warning is printed.
\<close>

theorem non_list_field_file_skipped:
  "map_of not_list_fields ''treatments'' = Some (JInt 5)
   \<and> \<not> is_list (JInt 5)
   \<and> try_body (one_file_world ''bad.json'' (Inr (JObject not_list_fields))) str_unused
        ''premera_policies_abstracted/bad.json''
       = ([''Warning: '' @ quote ''treatments'' @ '' in bad.json is not a list. Using empty list.''],
          Raised (AttributeError ''int'' ''pop''))
   \<and> compact_line_of (one_file_world ''bad.json'' (Inr (JObject not_list_fields))) str_unused
        ''premera_policies_abstracted/bad.json'' = None
   \<and> map_of bad_metadata_fields ''treatments'' = Some (JInt 5)
   \<and> try_body (one_file_world ''bad.json'' (Inr (JObject bad_metadata_fields))) str_unused
        ''premera_policies_abstracted/bad.json''
       = ([], Raised (AttributeError ''str'' ''get''))"
  by code_simp

text \<open>
  C7, amended. On an object root, a \<^verbatim>\<open>treatments\<close> or \<^verbatim>\<open>indications\<close> field that is
  present and not a list makes the \<^verbatim>\<open>try\<close> body end exactly as it does on the same
  document with an empty list in that field, so the summary line is produced exactly
  when that document produces it; when \<^verbatim>\<open>policyMetadata\<close> is absent or an object, what
  is printed is what that document prints with the warning naming the field and the
  file inserted. An absent field behaves as an empty list, with nothing more printed.
\<close>

theorem non_list_field_treated_as_empty:
  assumes "load w p = Inr (JObject data)"
    and "field = ''treatments'' \<or> field = ''indications''"
  shows "try_body w py_str p = extract_fields py_str (basename p) data
       \<and> (map_of data field = Some v \<and> \<not> is_list v \<longrightarrow>
            snd (extract_fields py_str (basename p) data)
              = snd (extract_fields py_str (basename p) ((field, JArray []) # dict_pop data field))
            \<and> (is_object (dict_get data ''policyMetadata'' (JObject [])) \<longrightarrow>
                 (\<exists>pre post.
                    fst (extract_fields py_str (basename p) ((field, JArray []) # dict_pop data field)) = pre @ post
                    \<and> fst (extract_fields py_str (basename p) data)
                        = pre @ [''Warning: '' @ quote field @ '' in '' @ basename p
                                   @ '' is not a list. Using empty list.''] @ post)))
       \<and> (map_of data field = None \<longrightarrow>
            extract_fields py_str (basename p) data
              = extract_fields py_str (basename p) ((field, JArray []) # data))"
  using try_body_object [OF assms(1)] extract_fields_non_list [OF assms(2), of data v py_str "basename p"]
    extract_fields_absent [OF assms(2), of data py_str "basename p"]
  by (simp add: warning_def)

theorem non_list_field_treated_as_empty_witness:
  "load (one_file_world ''a.json'' (Inr (JObject text_field_fields))) ''premera_policies_abstracted/a.json''
     = Inr (JObject text_field_fields)
   \<and> map_of text_field_fields ''treatments'' = Some (JString ''none'')
   \<and> \<not> is_list (JString ''none'')
   \<and> is_object (dict_get text_field_fields ''policyMetadata'' (JObject []))
   \<and> map_of text_field_fields ''policyMetadata'' = None
   \<and> extract_fields str_unused ''a.json'' ((''treatments'', JArray []) # dict_pop text_field_fields ''treatments'')
       = ([''a: N/A Treatments: []; Indications: []''],
          Completed \<lparr>policyTitle = JString ''N/A'', sourceFilename = ''a.json'',
                     treatments = [], indications = []\<rparr>
            ''a: N/A Treatments: []; Indications: []'')
   \<and> snd (try_body (one_file_world ''a.json'' (Inr (JObject text_field_fields))) str_unused
        ''premera_policies_abstracted/a.json'')
       = Completed \<lparr>policyTitle = JString ''N/A'', sourceFilename = ''a.json'',
                     treatments = [], indications = []\<rparr>
            ''a: N/A Treatments: []; Indications: []''
   \<and> fst (try_body (one_file_world ''a.json'' (Inr (JObject text_field_fields))) str_unused
        ''premera_policies_abstracted/a.json'')
       = [''Warning: '' @ quote ''treatments'' @ '' in a.json is not a list. Using empty list.'',
          ''a: N/A Treatments: []; Indications: []'']
   \<and> map_of text_field_fields ''indications'' = None
   \<and> extract_fields str_unused ''a.json'' text_field_fields
       = extract_fields str_unused ''a.json'' ((''indications'', JArray []) # text_field_fields)"
proof -
  let ?w = "one_file_world ''a.json'' (Inr (JObject text_field_fields))"
  let ?p = "''premera_policies_abstracted/a.json''"
  have a: "load ?w ?p = Inr (JObject text_field_fields)"
    by (simp add: one_file_world_def source_directory_def)
  have b: "''treatments'' = ''treatments'' \<or> ''treatments'' = ''indications''" by simp
  have c: "map_of text_field_fields ''treatments'' = Some (JString ''none'') \<and> \<not> is_list (JString ''none'')"
    by (simp add: text_field_fields_def is_list_def)
  have d: "is_object (dict_get text_field_fields ''policyMetadata'' (JObject []))"
    by (simp add: text_field_fields_def is_object_def dict_get_def)
  have d': "map_of text_field_fields ''policyMetadata'' = None"
    by (simp add: text_field_fields_def)
  have e: "extract_fields str_unused ''a.json'' ((''treatments'', JArray []) # dict_pop text_field_fields ''treatments'')
       = ([''a: N/A Treatments: []; Indications: []''],
          Completed \<lparr>policyTitle = JString ''N/A'', sourceFilename = ''a.json'',
                     treatments = [], indications = []\<rparr>
            ''a: N/A Treatments: []; Indications: []'')"
    by code_simp
  have bn: "basename ?p = ''a.json''" by code_simp
  note t = non_list_field_treated_as_empty [OF a b, of str_unused "JString ''none''"]
  from t have t1: "try_body ?w str_unused ?p = extract_fields str_unused ''a.json'' text_field_fields"
    by (simp add: bn)
  from t [THEN conjunct2, THEN conjunct1, rule_format, OF c]
  have t2: "snd (extract_fields str_unused ''a.json'' text_field_fields)
              = snd (extract_fields str_unused ''a.json'' ((''treatments'', JArray []) # dict_pop text_field_fields ''treatments''))"
    and t3: "\<exists>pre post.
                    fst (extract_fields str_unused ''a.json'' ((''treatments'', JArray []) # dict_pop text_field_fields ''treatments'')) = pre @ post
                    \<and> fst (extract_fields str_unused ''a.json'' text_field_fields)
                        = pre @ [''Warning: '' @ quote ''treatments'' @ '' in a.json is not a list. Using empty list.''] @ post"
    using d by (simp_all add: bn)
  have f: "fst (try_body ?w str_unused ?p)
       = [''Warning: '' @ quote ''treatments'' @ '' in a.json is not a list. Using empty list.'',
          ''a: N/A Treatments: []; Indications: []'']"
    by code_simp
  have b': "''indications'' = ''treatments'' \<or> ''indications'' = ''indications''" by simp
  have g: "map_of text_field_fields ''indications'' = None"
    by (simp add: text_field_fields_def)
  from non_list_field_treated_as_empty
         [OF a b', of str_unused, THEN conjunct2, THEN conjunct2, rule_format, OF g]
  have h: "extract_fields str_unused ''a.json'' text_field_fields
       = extract_fields str_unused ''a.json'' ((''indications'', JArray []) # text_field_fields)"
    by (simp add: bn)
  from a c d d' e t1 t2 f g h show ?thesis by simp
qed

text \<open>
  C8. When no name in the source directory matches, the run prints only the no-files
  message, exits normally and leaves the output file as it was.
\<close>

theorem no_files_found:
  assumes "glob w = []"
  shows "run w py_str =
           \<lparr>printed = [''No files found matching pattern: premera_policies_abstracted/*.json''],
            final = Exited, out_after = out_before w\<rparr>"
  using assms by (simp add: run_def run_files_def file_pattern_def source_directory_def)

theorem no_files_found_witness:
  "glob no_match_world = []
   \<and> run no_match_world str_unused =
        \<lparr>printed = [''No files found matching pattern: premera_policies_abstracted/*.json''],
         final = Exited, out_after = Some ''old''\<rparr>"
proof -
  have a: "glob no_match_world = []" by code_simp
  from no_files_found [OF a, of str_unused] a show ?thesis
    by (simp add: no_match_world_def)
qed

text \<open>
  C9. On an object root whose \<^verbatim>\<open>treatments\<close> or \<^verbatim>\<open>indications\<close> list holds an entry that
  is not an object, the \<^verbatim>\<open>try\<close> body raises an exception that only the last handler
  catches: the unexpected-error diagnostic and the separator are printed, no line is
  appended, and the loop goes on, collecting what it collects without that file.
\<close>

theorem non_object_entry_skips_file:
  assumes "load w p = Inr (JObject data)"
    and "field = ''treatments'' \<or> field = ''indications''"
    and "map_of data field = Some (JArray entries)"
    and "t \<in> set entries" and "\<not> is_object t"
  shows "\<exists>out e. unexpected e
           \<and> process_file w py_str st p =
               st\<lparr>console := console st @ [''--- Processing: '' @ basename p @ '' ---''] @ out
                   @ [''Skipping '' @ basename p @ '': An unexpected error occurred - '' @ exn_str e,
                      separator (basename p)]\<rparr>
           \<and> compact_line_of w py_str p = None
           \<and> all_extracted_data (foldl (process_file w py_str) st (ps1 @ p # ps2))
               = all_extracted_data (foldl (process_file w py_str) st (ps1 @ ps2))"
proof -
  have "\<exists>out e. extract_fields py_str (basename p) data = (out, Raised e)"
  proof (cases "json_get (dict_get data ''policyMetadata'' (JObject [])) ''policyTitle'' (JString ''N/A'')")
    case (Inl e)
    then show ?thesis by (simp add: extract_fields_def)
  next
    case (Inr title)
    obtain w1 ts0 where e1: "ensure_list ''treatments'' (basename p) (dict_get data ''treatments'' (JArray [])) = (w1, ts0)"
      by (cases "ensure_list ''treatments'' (basename p) (dict_get data ''treatments'' (JArray []))")
    obtain w2 is0 where e2: "ensure_list ''indications'' (basename p) (dict_get data ''indications'' (JArray [])) = (w2, is0)"
      by (cases "ensure_list ''indications'' (basename p) (dict_get data ''indications'' (JArray []))")
    from assms(2,3) e1 e2 have "ts0 = entries \<or> is0 = entries"
      by (auto simp: dict_get_def ensure_list_JArray)
    with assms(4) have "t \<in> set ts0 \<union> set is0" by auto
    from summarise_bad [OF this assms(5)] obtain e
      where "summarise py_str (basename p) title ts0 is0 = Inl e" by blast
    with Inr e1 e2 show ?thesis by (simp add: extract_fields_def)
  qed
  then obtain out e where ex: "extract_fields py_str (basename p) data = (out, Raised e)" by blast
  then have u: "unexpected e" by (rule extract_fields_Raised)
  from ex assms(1) have tb: "try_body w py_str p = (out, Raised e)" by (simp add: try_body_object)
  then have n: "compact_line_of w py_str p = None" by (simp add: compact_line_of_def)
  then have m: "List.map_filter (compact_line_of w py_str) (ps1 @ p # ps2)
         = List.map_filter (compact_line_of w py_str) (ps1 @ ps2)"
    by (simp add: List.map_filter_def)
  show ?thesis
    apply (rule exI [of _ out])
    apply (rule exI [of _ e])
    using u n m
    apply (simp add: process_file_Raised [OF tb] handler_unexpected foldl_data del: foldl_append)
    done
qed

theorem non_object_entry_skips_file_witness:
  "load (one_file_world ''bad.json'' (Inr (JObject bad_entry_fields))) ''premera_policies_abstracted/bad.json''
     = Inr (JObject bad_entry_fields)
   \<and> map_of bad_entry_fields ''treatments''
       = Some (JArray [JObject [(''name'', JString ''Surgery'')], JString ''Physio''])
   \<and> JString ''Physio'' \<in> set [JObject [(''name'', JString ''Surgery'')], JString ''Physio'']
   \<and> \<not> is_object (JString ''Physio'')
   \<and> compact_line_of (one_file_world ''bad.json'' (Inr (JObject bad_entry_fields))) str_unused
        ''premera_policies_abstracted/bad.json'' = None
   \<and> try_body (one_file_world ''bad.json'' (Inr (JObject bad_entry_fields))) str_unused
        ''premera_policies_abstracted/bad.json'' = ([], Raised (AttributeError ''str'' ''pop''))"
proof -
  let ?w = "one_file_world ''bad.json'' (Inr (JObject bad_entry_fields))"
  let ?p = "''premera_policies_abstracted/bad.json''"
  have a: "load ?w ?p = Inr (JObject bad_entry_fields)"
    by (simp add: one_file_world_def source_directory_def)
  have b: "''treatments'' = ''treatments'' \<or> ''treatments'' = ''indications''" by simp
  have c: "map_of bad_entry_fields ''treatments''
       = Some (JArray [JObject [(''name'', JString ''Surgery'')], JString ''Physio''])"
    by (simp add: bad_entry_fields_def)
  have d: "JString ''Physio'' \<in> set [JObject [(''name'', JString ''Surgery'')], JString ''Physio'']"
    by simp
  have e: "\<not> is_object (JString ''Physio'')" by (simp add: is_object_def)
  from non_object_entry_skips_file [OF a b c d e, of str_unused]
  have f: "compact_line_of ?w str_unused ?p = None" by blast
  have g: "try_body ?w str_unused ?p = ([], Raised (AttributeError ''str'' ''pop''))"
    by code_simp
  from a c d e f g show ?thesis by simp
qed

text \<open>
  C10. On an object root whose \<^verbatim>\<open>policyMetadata\<close> is present and not an object, the
  file prints the unexpected-error diagnostic for the missing \<^verbatim>\<open>get\<close> attribute and
  appends no line. When \<^verbatim>\<open>policyMetadata\<close> is absent the file is processed as with an
  empty object there, and a processed file then has the title \<^verbatim>\<open>N/A\<close>.
\<close>

theorem non_object_policy_metadata_skips_file:
  assumes "load w p = Inr (JObject data)"
  shows "(map_of data ''policyMetadata'' = Some v \<and> \<not> is_object v \<longrightarrow>
            process_file w py_str st p =
              st\<lparr>console := console st @
                [''--- Processing: '' @ basename p @ '' ---'',
                 ''Skipping '' @ basename p @ '': An unexpected error occurred - ''
                   @ quote (type_name v) @ '' object has no attribute '' @ quote ''get'',
                 separator (basename p)]\<rparr>
            \<and> compact_line_of w py_str p = None)
       \<and> (map_of data ''policyMetadata'' = None \<longrightarrow>
            extract_fields py_str (basename p) data
              = extract_fields py_str (basename p) ((''policyMetadata'', JObject []) # data)
            \<and> (\<forall>out info line. try_body w py_str p = (out, Completed info line) \<longrightarrow>
                  policyTitle info = JString ''N/A''
                  \<and> (\<exists>tj ij. line = fst (splitext (basename p)) @ '': N/A Treatments: [''
                                   @ tj @ '']; Indications: ['' @ ij @ '']'')))"
proof (intro conjI impI allI)
  assume a: "map_of data ''policyMetadata'' = Some v \<and> \<not> is_object v"
  then have "json_get (dict_get data ''policyMetadata'' (JObject [])) ''policyTitle'' (JString ''N/A'')
      = Inl (AttributeError (type_name v) ''get'')"
    by (cases v) (simp_all add: dict_get_def json_get_def is_object_def)
  with assms have tb: "try_body w py_str p = ([], Raised (AttributeError (type_name v) ''get''))"
    by (simp add: try_body_object extract_fields_def)
  show "process_file w py_str st p =
              st\<lparr>console := console st @
                [''--- Processing: '' @ basename p @ '' ---'',
                 ''Skipping '' @ basename p @ '': An unexpected error occurred - ''
                   @ quote (type_name v) @ '' object has no attribute '' @ quote ''get'',
                 separator (basename p)]\<rparr>"
    by (simp add: process_file_Raised [OF tb])
  show "compact_line_of w py_str p = None" using tb by (simp add: compact_line_of_def)
next
  assume n: "map_of data ''policyMetadata'' = None"
  then show "extract_fields py_str (basename p) data
              = extract_fields py_str (basename p) ((''policyMetadata'', JObject []) # data)"
    by (simp add: extract_fields_def dict_get_Cons dict_get_None cong: sum.case_cong)
  fix out info line
  assume c: "try_body w py_str p = (out, Completed info line)"
  from n have t: "json_get (dict_get data ''policyMetadata'' (JObject [])) ''policyTitle'' (JString ''N/A'')
      = Inr (JString ''N/A'')"
    by (simp add: dict_get_def json_get_def)
  from c assms have "extract_fields py_str (basename p) data = (out, Completed info line)"
    by (simp add: try_body_object)
  with t obtain ts0 is0 where
    "summarise py_str (basename p) (JString ''N/A'') ts0 is0 = Inr (info, line)"
    by (auto simp: extract_fields_def Let_def split: sum.splits prod.splits)
  from summarise_Inr_line [OF this]
  show "policyTitle info = JString ''N/A''"
    and "\<exists>tj ij. line = fst (splitext (basename p)) @ '': N/A Treatments: [''
                                   @ tj @ '']; Indications: ['' @ ij @ '']''"
    by (simp_all add: format_field_def)
qed

theorem non_object_policy_metadata_skips_file_witness:
  "load (one_file_world ''bad.json'' (Inr (JObject bad_metadata_fields))) ''premera_policies_abstracted/bad.json''
     = Inr (JObject bad_metadata_fields)
   \<and> map_of bad_metadata_fields ''policyMetadata'' = Some (JString ''Test Policy'')
   \<and> \<not> is_object (JString ''Test Policy'')
   \<and> compact_line_of (one_file_world ''bad.json'' (Inr (JObject bad_metadata_fields))) str_unused
        ''premera_policies_abstracted/bad.json'' = None
   \<and> printed (run (one_file_world ''bad.json'' (Inr (JObject bad_metadata_fields))) str_unused) =
       [''Found 1 files matching pattern. Processing...'' @ [CHR 0x0A],
        ''--- Processing: bad.json ---'',
        ''Skipping bad.json: An unexpected error occurred - '' @ quote ''str''
           @ '' object has no attribute '' @ quote ''get'',
        ''----------------------------'',
        CHR 0x0A # ''Processing complete. Extracted data from 0 valid files.'']
   \<and> load (one_file_world ''a.json'' (Inr (JObject []))) ''premera_policies_abstracted/a.json''
     = Inr (JObject [])
   \<and> map_of ([] :: (string \<times> json) list) ''policyMetadata'' = None
   \<and> try_body (one_file_world ''a.json'' (Inr (JObject []))) str_unused ''premera_policies_abstracted/a.json''
       = ([''a: N/A Treatments: []; Indications: []''],
          Completed \<lparr>policyTitle = JString ''N/A'', sourceFilename = ''a.json'',
                     treatments = [], indications = []\<rparr>
            ''a: N/A Treatments: []; Indications: []'')"
proof -
  let ?w = "one_file_world ''bad.json'' (Inr (JObject bad_metadata_fields))"
  let ?p = "''premera_policies_abstracted/bad.json''"
  let ?w' = "one_file_world ''a.json'' (Inr (JObject []))"
  let ?p' = "''premera_policies_abstracted/a.json''"
  have a: "load ?w ?p = Inr (JObject bad_metadata_fields)"
    by (simp add: one_file_world_def source_directory_def)
  have b: "map_of bad_metadata_fields ''policyMetadata'' = Some (JString ''Test Policy'')
       \<and> \<not> is_object (JString ''Test Policy'')"
    by (simp add: bad_metadata_fields_def is_object_def)
  from non_object_policy_metadata_skips_file [OF a, THEN conjunct1, rule_format, OF b, of str_unused]
  have c: "compact_line_of ?w str_unused ?p = None" by blast
  have d: "printed (run ?w str_unused) =
       [''Found 1 files matching pattern. Processing...'' @ [CHR 0x0A],
        ''--- Processing: bad.json ---'',
        ''Skipping bad.json: An unexpected error occurred - '' @ quote ''str''
           @ '' object has no attribute '' @ quote ''get'',
        ''----------------------------'',
        CHR 0x0A # ''Processing complete. Extracted data from 0 valid files.'']"
    by code_simp
  have a': "load ?w' ?p' = Inr (JObject [])"
    by (simp add: one_file_world_def source_directory_def)
  have e: "try_body ?w' str_unused ?p'
       = ([''a: N/A Treatments: []; Indications: []''],
          Completed \<lparr>policyTitle = JString ''N/A'', sourceFilename = ''a.json'',
                     treatments = [], indications = []\<rparr>
            ''a: N/A Treatments: []; Indications: []'')"
    by code_simp
  from a b c d a' e show ?thesis by simp
qed

end
